theory Spec2Isabelle
  imports Main "HOL-Library.Word" "HOL-Library.Monad_Syntax"
begin

section \<open>Escaping of reserved characters (escape.go)\<close>

text \<open>
  The two package-level replacers are built with \<^verbatim>\<open>strings.NewReplacer\<close> from a list
  of (old, new) pairs. A replacer walks the input from left to right; at each position the
  first pair (in argument order) whose old string is a prefix of the rest is applied and the
  walk continues after the matched text; where no pair matches, one byte is copied.
  Both replacers of the file have non-empty old strings, the only case modelled.
\<close>

definition backslash :: char where
  "backslash = CHR 0x5C"

definition dquote :: char where
  "dquote = CHR 0x22"

fun lookup_pair :: "(string \<times> string) list \<Rightarrow> string \<Rightarrow> (string \<times> string) option" where
  "lookup_pair [] s = None"
| "lookup_pair ((old, new) # ps) s =
     (if old \<noteq> [] \<and> take (length old) s = old then Some (old, new) else lookup_pair ps s)"

lemma lookup_pair_nonempty: "lookup_pair ps s = Some (old, new) \<Longrightarrow> old \<noteq> []"
  by (induction ps) (auto split: if_splits)

function Replace :: "(string \<times> string) list \<Rightarrow> string \<Rightarrow> string" where
  "Replace ps [] = []"
| "Replace ps (c # cs) =
     (case lookup_pair ps (c # cs) of
        None \<Rightarrow> c # Replace ps cs
      | Some (old, new) \<Rightarrow> new @ Replace ps (drop (length old) (c # cs)))"
  by pat_completeness auto
termination
proof (relation "measure (\<lambda>(ps, s). length s)")
  show "wf (measure (\<lambda>(ps, s). length s))" by simp
next
  fix ps :: "(string \<times> string) list" and c :: char and cs :: string
  show "((ps, cs), (ps, c # cs)) \<in> measure (\<lambda>(ps, s). length s)" by simp
next
  fix ps :: "(string \<times> string) list" and c :: char and cs :: string
    and x2 :: "string \<times> string" and old new :: string
  assume "lookup_pair ps (c # cs) = Some x2" and "(old, new) = x2"
  then have "old \<noteq> []" using lookup_pair_nonempty by metis
  then show "((ps, drop (length old) (c # cs)), (ps, c # cs)) \<in> measure (\<lambda>(ps, s). length s)"
    by (cases old) auto
qed

definition escaper :: "(string \<times> string) list" where
  "escaper = [('','', [backslash, CHR '','']),
              ([dquote], [backslash, dquote]),
              ('' '', [backslash, CHR '' '']),
              (''='', [backslash, CHR ''=''])]"

definition unescaper :: "(string \<times> string) list" where
  "unescaper = [([backslash, CHR '',''], '',''),
                ([backslash, dquote], [dquote]),
                ([backslash, CHR '' ''], '' ''),
                ([backslash, CHR ''=''], ''='')]"

definition UnescapeString :: "string \<Rightarrow> string" where
  "UnescapeString s = (if backslash \<notin> set s then s else Replace unescaper s)"

definition String0 :: "string \<Rightarrow> string" where
  "String0 s = Replace escaper s"

definition reserved :: "char set" where
  "reserved = {CHR '','', dquote, CHR '' '', CHR ''=''}"


section \<open>Dynamic values, errors and call outcomes\<close>

text \<open>
  A Go \<^verbatim>\<open>interface{}\<close> value as the code meets it: what the JSON decoder produces
  under \<^verbatim>\<open>UseNumber\<close> (nil, bool, string, \<^verbatim>\<open>json.Number\<close> as its text, arrays and
  objects) and what the coercion stores (\<^verbatim>\<open>int64\<close>, \<^verbatim>\<open>float64\<close>, the untyped constant
  \<^verbatim>\<open>0\<close> as \<^verbatim>\<open>int\<close>). The type \<open>'f\<close> stands for \<^verbatim>\<open>float64\<close>.
\<close>

datatype 'f gval =
    GNil
  | GBool bool
  | GString string
  | GNumber string
  | GInt int
  | GInt64 "64 word"
  | GFloat64 'f
  | GArray "'f gval list"
  | GObject "(string \<times> 'f gval) list"

text \<open>
  Error values. \<open>ErrNotExistsTable\<close> is the package variable of that name; a Go error is
  compared by identity, so \<open>ErrNew ''table does not exist''\<close> (a fresh \<^verbatim>\<open>errors.New\<close>) is a
  different value. The formatted errors keep their arguments:
  \<^item> \<open>ErrNoHttpClient e\<close>: "not created http client for tdengine: %v";
  \<^item> \<open>ErrDecode status msg\<close>: "unable to decode json: received status code %d err: %s";
  \<^item> \<open>ErrStatus status\<close>: "received status code %d from server";
  \<^item> \<open>ErrDownstream status\<close>: "received status code %d from downstream server";
  \<^item> \<open>ErrDownstreamBody status body\<close>: the same "with response body: %q";
  \<^item> \<open>ErrEmptyBody status\<close>: "expected json response, got empty body, with status: %v";
  \<^item> \<open>ErrNotJson ctype status body\<close>: "expected json response, got %q, with status: %v and
    response body: %q";
  \<^item> \<open>ErrInvalidDuration s\<close>, \<open>ErrMissingUnit s\<close>, \<open>ErrUnknownUnit u s\<close>: the three errors of
    \<^verbatim>\<open>time.ParseDuration\<close>.
\<close>

datatype error =
    ErrNotExistsTable
  | ErrNew string
  | ErrNoHttpClient "error option"
  | ErrDecode int string
  | ErrStatus int
  | ErrDownstream int
  | ErrDownstreamBody int string
  | ErrEmptyBody int
  | ErrNotJson string int string
  | ErrInvalidDuration string
  | ErrMissingUnit string
  | ErrUnknownUnit string string

text \<open>A call either returns or stops with a run-time panic (the panic's message).\<close>

datatype 'a outcome = Return 'a | Panic string

section \<open>Decimal digits\<close>

definition isDigit :: "char \<Rightarrow> bool" where
  "isDigit c = (c \<in> set ''0123456789'')"

definition digit_val :: "char \<Rightarrow> nat" where
  "digit_val c = of_char c - 48"

definition dec_value :: "string \<Rightarrow> nat" where
  "dec_value s = foldl (\<lambda>a c. a * 10 + digit_val c) 0 s"

section \<open>json.Number.Int64: strconv.ParseInt(s, 10, 64)\<close>

text \<open>
  The value and whether an error is returned. A syntax error gives 0; a value out of range
  gives the nearest bound of \<^verbatim>\<open>int64\<close>.
\<close>

definition ParseInt64 :: "string \<Rightarrow> int \<times> bool" where
  "ParseInt64 s =
     (case s of
        [] \<Rightarrow> (0, True)
      | c # cs \<Rightarrow>
          (let neg = (c = CHR ''-'');
               ds = (if c = CHR ''+'' \<or> c = CHR ''-'' then cs else s)
           in if ds = [] \<or> \<not> list_all isDigit ds then (0, True)
              else (let un = dec_value ds
                    in if \<not> neg \<and> un \<ge> 2 ^ 63 then (2 ^ 63 - 1, True)
                       else if neg \<and> un > 2 ^ 63 then (- (2 ^ 63), True)
                       else (if neg then - int un else int un, False))))"

definition Number_Int64 :: "string \<Rightarrow> 64 word" where
  "Number_Int64 num = of_int (fst (ParseInt64 num))"

section \<open>time.Parse for the layout tsdbTimeStampFormat, and Time.Unix\<close>

text \<open>
  \<^verbatim>\<open>tsdbTimeStampFormat = "2006-01-02T15:04:05.999999999Z"\<close>. The layout splits into
  the four-digit year, \<^verbatim>\<open>-\<close>, the two-digit month, \<^verbatim>\<open>-\<close>, the two-digit day, \<^verbatim>\<open>T\<close>, the hour
  (one or two digits), \<^verbatim>\<open>:\<close>, the two-digit minute, \<^verbatim>\<open>:\<close>, the two-digit second, an optional
  fraction of any number of digits after a period or comma, and the literal \<^verbatim>\<open>Z\<close>, after
  which the input must end. The result is in UTC; only its Unix seconds are used.
\<close>

definition getnum :: "string \<Rightarrow> bool \<Rightarrow> (nat \<times> string) option" where
  "getnum s fixed =
     (case s of
        [] \<Rightarrow> None
      | c0 # s1 \<Rightarrow>
          if \<not> isDigit c0 then None
          else (case s1 of
                  [] \<Rightarrow> if fixed then None else Some (digit_val c0, s1)
                | c1 # s2 \<Rightarrow>
                    if \<not> isDigit c1 then (if fixed then None else Some (digit_val c0, s1))
                    else Some (digit_val c0 * 10 + digit_val c1, s2)))"

definition skip_byte :: "char \<Rightarrow> string \<Rightarrow> string option" where
  "skip_byte p v = (case v of [] \<Rightarrow> None | c # cs \<Rightarrow> if c = p then Some cs else None)"

definition longYear :: "string \<Rightarrow> (nat \<times> string) option" where
  "longYear v =
     (if length v < 4 then None
      else if \<not> list_all isDigit (take 4 v) then None
      else Some (dec_value (take 4 v), drop 4 v))"

definition commaOrPeriod :: "char \<Rightarrow> bool" where
  "commaOrPeriod c = (c = CHR ''.'' \<or> c = CHR '','')"

definition fracSecond :: "string \<Rightarrow> string" where
  "fracSecond v =
     (case v of
        c0 # c1 # rest \<Rightarrow>
          if commaOrPeriod c0 \<and> isDigit c1 then dropWhile isDigit (c1 # rest) else v
      | _ \<Rightarrow> v)"

definition isLeap :: "int \<Rightarrow> bool" where
  "isLeap year = (year mod 4 = 0 \<and> (year mod 100 \<noteq> 0 \<or> year mod 400 = 0))"

definition daysBefore :: "int list" where
  "daysBefore = [0, 31, 59, 90, 120, 151, 181, 212, 243, 273, 304, 334, 365]"

definition daysIn :: "nat \<Rightarrow> int \<Rightarrow> int" where
  "daysIn m year =
     (if m = 2 \<and> isLeap year then 29 else daysBefore ! m - daysBefore ! (m - 1))"

definition Date_Unix :: "int \<Rightarrow> nat \<Rightarrow> int \<Rightarrow> int \<Rightarrow> int \<Rightarrow> int \<Rightarrow> int" where
  "Date_Unix year m day hour minute sec =
     (let y = year - 1;
          d = 365 * y + y div 4 - y div 100 + y div 400 - 719162
              + daysBefore ! (m - 1)
              + (if isLeap year \<and> m \<ge> 3 then 1 else 0)
              + (day - 1)
      in d * 86400 + hour * 3600 + minute * 60 + sec)"

definition parseTimeStamp :: "string \<Rightarrow> int option" where
  "parseTimeStamp v0 = do {
     (year, v1) \<leftarrow> longYear v0;
     v2 \<leftarrow> skip_byte (CHR ''-'') v1;
     (month, v3) \<leftarrow> getnum v2 True;
     if month \<le> 0 \<or> 12 < month then None else do {
     v4 \<leftarrow> skip_byte (CHR ''-'') v3;
     (day, v5) \<leftarrow> getnum v4 True;
     v6 \<leftarrow> skip_byte (CHR ''T'') v5;
     (hour, v7) \<leftarrow> getnum v6 False;
     if 24 \<le> hour then None else do {
     v8 \<leftarrow> skip_byte (CHR '':'') v7;
     (minute, v9) \<leftarrow> getnum v8 True;
     if 60 \<le> minute then None else do {
     v10 \<leftarrow> skip_byte (CHR '':'') v9;
     (sec, v11) \<leftarrow> getnum v10 True;
     if 60 \<le> sec then None else do {
     v12 \<leftarrow> skip_byte (CHR ''Z'') (fracSecond v11);
     if v12 \<noteq> [] then None
     else if int day < 1 \<or> int day > daysIn month (int year) then None
     else Some (Date_Unix (int year) month (int day) (int hour) (int minute) (int sec))
     }}}}}"

section \<open>The query response and its error (taosclient.go)\<close>

record 'f Response =
  Code :: int
  Desc :: string
  ColumnMeta :: "'f gval list list"
  Data :: "'f gval list list"
  Rows :: int

definition zero_Response :: "'f Response" where
  "zero_Response = \<lparr>Code = 0, Desc = [], ColumnMeta = [], Data = [], Rows = 0\<rparr>"

definition Response_Error :: "'f Response \<Rightarrow> error option" where
  "Response_Error r =
     (if Code r \<noteq> 0 \<or> length (Desc r) > 0
      then (if Code r = 9826 \<or> Code r = 9750 then Some ErrNotExistsTable
            else Some (ErrNew (Desc r)))
      else None)"

section \<open>Query over HTTP (taosclient.go)\<close>

record Query =
  Command :: string
  Database :: string
  Precision :: string

definition NewQuery :: "string \<Rightarrow> string \<Rightarrow> string \<Rightarrow> Query" where
  "NewQuery command database precision =
     \<lparr>Command = command, Database = database, Precision = precision\<rparr>"

text \<open>
  What \<^verbatim>\<open>Query\<close> sees of the HTTP response: the status code, the media type that
  \<^verbatim>\<open>mime.ParseMediaType\<close> gives for the Content-Type header, the body as \<^verbatim>\<open>ReadAll\<close> returns
  it (\<open>None\<close> when reading fails), and the outcome of \<^verbatim>\<open>dec.Decode(&response)\<close> with
  \<^verbatim>\<open>UseNumber\<close>: the decoded response, or the message of the decode error.
\<close>

record 'f http_response =
  StatusCode :: int
  MediaType :: string
  Body :: "string option"
  Decoded :: "string + 'f Response"

definition checkResponse :: "'f http_response \<Rightarrow> error option" where
  "checkResponse resp =
     (if StatusCode resp \<ge> 500
      then (case Body resp of
              None \<Rightarrow> Some (ErrDownstream (StatusCode resp))
            | Some body \<Rightarrow>
                if length body = 0 then Some (ErrDownstream (StatusCode resp))
                else Some (ErrDownstreamBody (StatusCode resp) body))
      else if MediaType resp \<noteq> ''application/json''
      then (case Body resp of
              None \<Rightarrow> Some (ErrEmptyBody (StatusCode resp))
            | Some body \<Rightarrow>
                if length (take 1024 body) = 0 then Some (ErrEmptyBody (StatusCode resp))
                else Some (ErrNotJson (MediaType resp) (StatusCode resp) (take 1024 body)))
      else None)"

text \<open>
  \<^verbatim>\<open>client.Query\<close>, from the outcome of building and sending the request (\<open>Inl\<close>: the error
  of \<^verbatim>\<open>createDefaultRequest\<close> or of \<^verbatim>\<open>httpClient.Do\<close>). The result is the Go pair
  (\<^verbatim>\<open>*Response\<close>, \<^verbatim>\<open>error\<close>). The decoder reports \<^verbatim>\<open>io.EOF\<close> (message "EOF") only when
  the body holds no value at all, so the variable \<^verbatim>\<open>response\<close> still has its zero value
  where that error is set aside.
\<close>

definition client_Query :: "error + 'f http_response \<Rightarrow> 'f Response option \<times> error option" where
  "client_Query sent =
     (case sent of
        Inl err \<Rightarrow> (None, Some err)
      | Inr resp \<Rightarrow>
          (case checkResponse resp of
             Some err \<Rightarrow> (None, Some err)
           | None \<Rightarrow>
               (let response = (case Decoded resp of Inl msg \<Rightarrow> zero_Response | Inr r \<Rightarrow> r);
                    decErr = (case Decoded resp of Inl msg \<Rightarrow> Some msg | Inr r \<Rightarrow> None);
                    decErr = (if decErr \<noteq> None \<and> decErr = Some ''EOF'' \<and> StatusCode resp \<noteq> 200
                              then None else decErr)
                in case decErr of
                     Some msg \<Rightarrow> (None, Some (ErrDecode (StatusCode resp) msg))
                   | None \<Rightarrow>
                       if StatusCode resp \<noteq> 200 \<and> Response_Error response = None
                       then (Some response, Some (ErrStatus (StatusCode resp)))
                       else (Some response, None))))"

section \<open>QueryData: the typed projection of rows (tsdbclient.go)\<close>

text \<open>
  The client holds its HTTP client as a value of the interface \<^verbatim>\<open>Client\<close> (here: its
  \<^verbatim>\<open>Query\<close> method, \<open>None\<close> for a nil interface), the error of its construction, the
  database configuration and the default for cells that are not numbers.
\<close>

record 'f tsdbClient =
  httpClient :: "(Query \<Rightarrow> 'f Response option \<times> error option) option"
  initialErr :: "error option"
  DBAddr :: string
  DBName :: string
  DBPrecision :: string
  DBUser :: string
  DBPass :: string
  defaultNumberValue :: "'f gval"

text \<open>One column of one row: the row map goes on, the call returns an error, or it panics.\<close>

datatype 'f column_step =
    Next "string \<rightharpoonup> 'f gval"
  | Fail error
  | Crash string

definition integer_types :: "string list" where
  "integer_types = [''BIGINT'', ''INT'', ''TINYINT'', ''SMALLINT'', ''TINYINT UNSIGNED'',
                    ''SMALLINT UNSIGNED'', ''INT UNSIGNED'', ''BIGINT UNSIGNED'']"

definition float_types :: "string list" where
  "float_types = [''FLOAT'', ''DOUBLE'']"

text \<open>
  The body of the inner loop, for column \<open>i\<close> with metadata \<open>c\<close> in row \<open>r\<close>. The parameter
  \<open>Float64\<close> is \<^verbatim>\<open>json.Number.Float64\<close> with its error dropped. A failed type assertion
  \<^verbatim>\<open>x.(string)\<close> and an index \<^verbatim>\<open>r[i]\<close> out of range are panics.
\<close>

definition column_step ::
  "(string \<Rightarrow> 'f) \<Rightarrow> 'f gval \<Rightarrow> bool \<Rightarrow> 'f gval list \<Rightarrow> nat \<Rightarrow> 'f gval list
     \<Rightarrow> (string \<rightharpoonup> 'f gval) \<Rightarrow> 'f column_step" where
  "column_step Float64 dflt convertNumber r i c row =
     (if length c \<noteq> 3 then Fail (ErrNew ''column meta data length no equal 3'')
      else (case c ! 0 of
              GString cn \<Rightarrow>
                if cn = ''_'' then Next row
                else if convertNumber then
                  (case c ! 1 of
                     GString ty \<Rightarrow>
                       if ty \<in> set integer_types then
                         (if i < length r
                          then (case r ! i of
                                  GNumber num \<Rightarrow> Next (row(cn \<mapsto> GInt64 (Number_Int64 num)))
                                | _ \<Rightarrow> Next (row(cn \<mapsto> dflt)))
                          else Crash ''index out of range'')
                       else if ty \<in> set float_types then
                         (if i < length r
                          then (case r ! i of
                                  GNumber num \<Rightarrow> Next (row(cn \<mapsto> GFloat64 (Float64 num)))
                                | _ \<Rightarrow> Next (row(cn \<mapsto> dflt)))
                          else Crash ''index out of range'')
                       else if ty = ''TIMESTAMP'' then
                         (if i < length r
                          then (case r ! i of
                                  GString text \<Rightarrow>
                                    (case parseTimeStamp text of
                                       Some unix \<Rightarrow> Next (row(cn \<mapsto> GInt64 (of_int unix)))
                                     | None \<Rightarrow> Next (row(cn \<mapsto> GInt 0)))
                                | _ \<Rightarrow> Crash ''interface conversion: interface {} is not string'')
                          else Crash ''index out of range'')
                       else
                         (if i < length r then Next (row(cn \<mapsto> r ! i))
                          else Crash ''index out of range'')
                   | _ \<Rightarrow> Crash ''interface conversion: interface {} is not string'')
                else
                  (if i < length r then Next (row(cn \<mapsto> r ! i))
                   else Crash ''index out of range'')
            | _ \<Rightarrow> Crash ''interface conversion: interface {} is not string''))"

fun row_columns ::
  "(string \<Rightarrow> 'f) \<Rightarrow> 'f gval \<Rightarrow> bool \<Rightarrow> 'f gval list \<Rightarrow> nat \<Rightarrow> 'f gval list list
     \<Rightarrow> (string \<rightharpoonup> 'f gval) \<Rightarrow> 'f column_step" where
  "row_columns Float64 dflt cv r i [] row = Next row"
| "row_columns Float64 dflt cv r i (c # cs) row =
     (case column_step Float64 dflt cv r i c row of
        Next row' \<Rightarrow> row_columns Float64 dflt cv r (Suc i) cs row'
      | Fail err \<Rightarrow> Fail err
      | Crash msg \<Rightarrow> Crash msg)"

fun rows_loop ::
  "(string \<Rightarrow> 'f) \<Rightarrow> 'f gval \<Rightarrow> bool \<Rightarrow> 'f gval list list \<Rightarrow> 'f gval list list
     \<Rightarrow> (string \<rightharpoonup> 'f gval) list \<Rightarrow> ((string \<rightharpoonup> 'f gval) list \<times> error option) outcome" where
  "rows_loop Float64 dflt cv meta [] result = Return (result, None)"
| "rows_loop Float64 dflt cv meta (r # rs) result =
     (case row_columns Float64 dflt cv r 0 meta Map.empty of
        Next row \<Rightarrow> rows_loop Float64 dflt cv meta rs (result @ [row])
      | Fail err \<Rightarrow> Return ([], Some err)
      | Crash msg \<Rightarrow> Panic msg)"

text \<open>
  \<^verbatim>\<open>QueryData\<close> returns the Go pair (result, err); a nil slice is the empty list. A
  \<^verbatim>\<open>Client\<close> that returns a nil response with a nil error makes \<^verbatim>\<open>resp.Error()\<close>
  dereference nil.
\<close>

definition QueryData ::
  "(string \<Rightarrow> 'f) \<Rightarrow> 'f tsdbClient \<Rightarrow> string \<Rightarrow> bool
     \<Rightarrow> ((string \<rightharpoonup> 'f gval) list \<times> error option) outcome" where
  "QueryData Float64 client sql convertNumber =
     (case httpClient client of
        None \<Rightarrow> Return ([], Some (ErrNoHttpClient (initialErr client)))
      | Some query \<Rightarrow>
          if initialErr client \<noteq> None
          then Return ([], Some (ErrNoHttpClient (initialErr client)))
          else (case query (NewQuery sql (DBName client) (DBPrecision client)) of
                  (resp, Some err) \<Rightarrow> Return ([], Some err)
                | (None, None) \<Rightarrow> Panic ''invalid memory address or nil pointer dereference''
                | (Some resp, None) \<Rightarrow>
                    (case Response_Error resp of
                       Some err \<Rightarrow>
                         if err = ErrNotExistsTable then Return ([], None)
                         else Return ([], Some err)
                     | None \<Rightarrow>
                         rows_loop Float64 (defaultNumberValue client) convertNumber
                           (ColumnMeta resp) (Data resp) [])))"

section \<open>time.ParseDuration\<close>

text \<open>
  The Go library function behind the validation of a precision: a duration is an optional
  sign and one or more terms, each a decimal number with an optional fraction and a unit.
  The numbers are \<^verbatim>\<open>uint64\<close>; every check against overflow of the library is kept. The
  nanoseconds of a fraction are computed there in floating point, as
  \<^verbatim>\<open>uint64(float64(f) * (float64(unit) / scale))\<close>: the parameter \<open>frac\<close> stands for that
  computation, applied to \<open>f\<close>, the unit and the number of digits of the scale.
\<close>

definition unitMap :: "(string \<times> nat) list" where
  "unitMap =
     [(''ns'', 1),
      (''us'', 1000),
      ([CHR 0xC2, CHR 0xB5, CHR ''s''], 1000),
      ([CHR 0xCE, CHR 0xBC, CHR ''s''], 1000),
      (''ms'', 1000000),
      (''s'', 1000000000),
      (''m'', 60000000000),
      (''h'', 3600000000000)]"

fun leadingInt :: "nat \<Rightarrow> string \<Rightarrow> (nat \<times> string) option" where
  "leadingInt x [] = Some (x, [])"
| "leadingInt x (c # cs) =
     (if \<not> isDigit c then Some (x, c # cs)
      else if x > 2 ^ 63 div 10 then None
      else (let y = x * 10 + digit_val c
            in if y > 2 ^ 63 then None else leadingInt y cs))"

fun leadingFraction :: "nat \<Rightarrow> nat \<Rightarrow> bool \<Rightarrow> string \<Rightarrow> nat \<times> nat \<times> string" where
  "leadingFraction x k overflow [] = (x, k, [])"
| "leadingFraction x k overflow (c # cs) =
     (if \<not> isDigit c then (x, k, c # cs)
      else if overflow then leadingFraction x k overflow cs
      else if x > (2 ^ 63 - 1) div 10 then leadingFraction x k True cs
      else (let y = x * 10 + digit_val c
            in if y > 2 ^ 63 then leadingFraction x k True cs
               else leadingFraction y (Suc k) False cs))"

definition unit_byte :: "char \<Rightarrow> bool" where
  "unit_byte c = (c \<noteq> CHR ''.'' \<and> \<not> isDigit c)"

text \<open>One term of the duration: its nanoseconds and the rest of the input.\<close>

definition duration_term ::
  "(nat \<Rightarrow> nat \<Rightarrow> nat \<Rightarrow> nat) \<Rightarrow> string \<Rightarrow> string \<Rightarrow> error + (nat \<times> string)" where
  "duration_term frac orig s =
     (case s of
        [] \<Rightarrow> Inl (ErrInvalidDuration orig)
      | c # _ \<Rightarrow>
          if \<not> (c = CHR ''.'' \<or> isDigit c) then Inl (ErrInvalidDuration orig)
          else (case leadingInt 0 s of
                  None \<Rightarrow> Inl (ErrInvalidDuration orig)
                | Some (v, s1) \<Rightarrow>
                    (let pre = (length s \<noteq> length s1);
                         fr = (case s1 of
                                 [] \<Rightarrow> (0, 0, s1)
                               | c1 # t1 \<Rightarrow>
                                   if c1 = CHR ''.'' then leadingFraction 0 0 False t1
                                   else (0, 0, s1));
                         f = fst fr; k = fst (snd fr); s2 = snd (snd fr);
                         post = (s1 \<noteq> [] \<and> hd s1 = CHR ''.'' \<and> length (tl s1) \<noteq> length s2)
                     in if \<not> pre \<and> \<not> post then Inl (ErrInvalidDuration orig)
                        else (let u = takeWhile unit_byte s2; s3 = dropWhile unit_byte s2
                              in if u = [] then Inl (ErrMissingUnit orig)
                                 else (case map_of unitMap u of
                                         None \<Rightarrow> Inl (ErrUnknownUnit u orig)
                                       | Some unit \<Rightarrow>
                                           if v > 2 ^ 63 div unit then Inl (ErrInvalidDuration orig)
                                           else if f > 0
                                           then (let v2 = (v * unit + frac f unit k) mod 2 ^ 64
                                                 in if v2 > 2 ^ 63 then Inl (ErrInvalidDuration orig)
                                                    else Inr (v2, s3))
                                           else Inr (v * unit, s3))))))"

lemma leadingInt_length: "leadingInt x s = Some (v, rest) \<Longrightarrow> length rest \<le> length s"
  by (induction x s rule: leadingInt.induct) (auto simp: Let_def split: if_splits)

lemma leadingFraction_length:
  "leadingFraction x k ov s = (f, k', rest) \<Longrightarrow> length rest \<le> length s"
  by (induction x k ov s rule: leadingFraction.induct) (auto simp: Let_def split: if_splits)

lemma dropWhile_shorter: "takeWhile P xs \<noteq> [] \<Longrightarrow> length (dropWhile P xs) < length xs"
  by (cases xs) (auto simp: le_imp_less_Suc length_dropWhile_le split: if_splits)

lemma duration_term_shorter:
  assumes "duration_term frac orig s = Inr (v, rest)"
  shows "length rest < length s"
proof -
  from assms obtain c cs where s: "s = c # cs"
    by (cases s) (auto simp: duration_term_def)
  from assms s obtain w s1 where li: "leadingInt 0 s = Some (w, s1)"
    by (auto simp: duration_term_def split: if_splits option.splits)
  define fr where "fr = (case s1 of [] \<Rightarrow> (0, 0, s1)
      | c1 # t1 \<Rightarrow> if c1 = CHR ''.'' then leadingFraction 0 0 False t1 else (0, 0, s1))"
  define s2 where "s2 = snd (snd fr)"
  have l1: "length s1 \<le> length s" using li by (rule leadingInt_length)
  have l2: "length s2 \<le> length s1"
  proof (cases s1)
    case Nil
    then show ?thesis by (simp add: s2_def fr_def)
  next
    case (Cons c1 t1)
    show ?thesis
    proof (cases "c1 = CHR ''.''")
      case True
      obtain f k r where lf: "leadingFraction 0 0 False t1 = (f, k, r)"
        by (cases "leadingFraction 0 0 False t1") auto
      then have "length r \<le> length t1" by (rule leadingFraction_length)
      with Cons True lf show ?thesis by (simp add: s2_def fr_def)
    next
      case False
      with Cons show ?thesis by (simp add: s2_def fr_def)
    qed
  qed
  from assms s li have u: "takeWhile unit_byte s2 \<noteq> []" and r: "rest = dropWhile unit_byte s2"
    unfolding duration_term_def s2_def fr_def
    by (auto simp: Let_def split: if_splits option.splits)
  from dropWhile_shorter [OF u] r l1 l2 show ?thesis by simp
qed

function ParseDuration_loop ::
  "(nat \<Rightarrow> nat \<Rightarrow> nat \<Rightarrow> nat) \<Rightarrow> string \<Rightarrow> nat \<Rightarrow> string \<Rightarrow> error + nat" where
  "ParseDuration_loop frac orig d s =
     (if s = [] then Inr d
      else (case duration_term frac orig s of
              Inl err \<Rightarrow> Inl err
            | Inr (v, rest) \<Rightarrow>
                (let d' = (d + v) mod 2 ^ 64
                 in if d' > 2 ^ 63 then Inl (ErrInvalidDuration orig)
                    else ParseDuration_loop frac orig d' rest)))"
  by pat_completeness auto
termination
proof (relation "measure (\<lambda>(frac, orig, d, s). length s)")
  show "wf (measure (\<lambda>(frac, orig, d, s). length s))" by simp
next
  fix frac :: "nat \<Rightarrow> nat \<Rightarrow> nat \<Rightarrow> nat" and orig s :: string and d :: nat
    and x2 :: "nat \<times> string" and v :: nat and rest :: string and d' :: nat
  assume "duration_term frac orig s = Inr x2" and "(v, rest) = x2"
  then have "length rest < length s" using duration_term_shorter [of frac orig s v rest] by simp
  then show "((frac, orig, d', rest), (frac, orig, d, s))
      \<in> measure (\<lambda>(frac, orig, d, s). length s)" by simp
qed

definition ParseDuration :: "(nat \<Rightarrow> nat \<Rightarrow> nat \<Rightarrow> nat) \<Rightarrow> string \<Rightarrow> error + int" where
  "ParseDuration frac orig =
     (let signed = (orig \<noteq> [] \<and> (hd orig = CHR ''-'' \<or> hd orig = CHR ''+''));
          neg = (orig \<noteq> [] \<and> hd orig = CHR ''-'');
          s = (if signed then tl orig else orig)
      in if s = ''0'' then Inr 0
         else if s = [] then Inl (ErrInvalidDuration orig)
         else (case ParseDuration_loop frac orig 0 s of
                 Inl err \<Rightarrow> Inl err
               | Inr d \<Rightarrow>
                   if neg then Inr (- int d)
                   else if d > 2 ^ 63 - 1 then Inl (ErrInvalidDuration orig)
                   else Inr (int d)))"

section \<open>BatchPoints (taosclient.go)\<close>

text \<open>
  A \<^verbatim>\<open>*DataPoint\<close> is \<open>None\<close> when nil; its field \<^verbatim>\<open>pt\<close> holds a value of the interface
  \<^verbatim>\<open>Point\<close> (type \<open>'p\<close>), or nil.
\<close>

datatype 'p DataPoint = DataPoint (pt: "'p option")

record BatchPointsConfig =
  conf_Precision :: string
  conf_Database :: string

record 'p batchpoints =
  points :: "'p DataPoint option list"
  database :: string
  precision :: string
  retentionPolicy :: string
  writeConsistency :: string

definition NewBatchPoints ::
  "(nat \<Rightarrow> nat \<Rightarrow> nat \<Rightarrow> nat) \<Rightarrow> BatchPointsConfig \<Rightarrow> error + 'p batchpoints" where
  "NewBatchPoints frac conf0 =
     (let conf = (if conf_Precision conf0 = [] then conf0\<lparr>conf_Precision := ''ms''\<rparr> else conf0)
      in case ParseDuration frac (''1'' @ conf_Precision conf) of
           Inl err \<Rightarrow> Inl err
         | Inr d \<Rightarrow>
             Inr \<lparr>points = [], database = conf_Database conf, precision = conf_Precision conf,
                  retentionPolicy = [], writeConsistency = []\<rparr>)"

definition AddPoint :: "'p batchpoints \<Rightarrow> 'p DataPoint option \<Rightarrow> 'p batchpoints" where
  "AddPoint bp p = bp\<lparr>points := points bp @ [p]\<rparr>"

definition AddPoints :: "'p batchpoints \<Rightarrow> 'p DataPoint option list \<Rightarrow> 'p batchpoints" where
  "AddPoints bp ps = bp\<lparr>points := points bp @ ps\<rparr>"

definition batchpoints_Precision :: "'p batchpoints \<Rightarrow> string" where
  "batchpoints_Precision bp = precision bp"

definition batchpoints_Database :: "'p batchpoints \<Rightarrow> string" where
  "batchpoints_Database bp = database bp"

text \<open>\<^verbatim>\<open>SetPrecision\<close> updates the batch in place: the batch after the call, and the error.\<close>

definition SetPrecision ::
  "(nat \<Rightarrow> nat \<Rightarrow> nat \<Rightarrow> nat) \<Rightarrow> 'p batchpoints \<Rightarrow> string \<Rightarrow> 'p batchpoints \<times> error option" where
  "SetPrecision frac bp p =
     (case ParseDuration frac (''1'' @ p) of
        Inl err \<Rightarrow> (bp, Some err)
      | Inr d \<Rightarrow> (bp\<lparr>precision := p\<rparr>, None))"

definition SetDatabase :: "'p batchpoints \<Rightarrow> string \<Rightarrow> 'p batchpoints" where
  "SetDatabase bp db = bp\<lparr>database := db\<rparr>"

section \<open>Write over HTTP (taosclient.go)\<close>

definition DefaultEncoding :: string where
  "DefaultEncoding = []"

definition GzipEncoding :: string where
  "GzipEncoding = ''gzip''"

definition WriteDataURL :: string where
  "WriteDataURL = ''influxdb/v1/write''"

definition ExecuteSqlURL :: string where
  "ExecuteSqlURL = ''rest/sql''"

text \<open>The fields of \<^verbatim>\<open>client\<close> that the request depends on, and the request that is sent.\<close>

record client =
  username :: string
  password :: string
  useragent :: string
  encoding :: string

record http_request =
  req_method :: string
  req_endpoint :: string
  req_params :: "(string \<times> string) list"
  req_headers :: "(string \<times> string) list"
  req_basic_auth :: "(string \<times> string) option"
  req_body :: string

text \<open>
  The loop of \<^verbatim>\<open>Write\<close> over the points: the bytes written so far are \<open>b\<close>. The writer is
  a buffer in memory (under a gzip writer for that encoding), so the writes return no error.
  \<open>PrecisionString\<close> is the method of the interface \<^verbatim>\<open>Point\<close>; calling it on a
  \<^verbatim>\<open>DataPoint\<close> whose \<^verbatim>\<open>pt\<close> is nil panics.
\<close>

fun write_points ::
  "('p \<Rightarrow> string \<Rightarrow> string) \<Rightarrow> string \<Rightarrow> 'p DataPoint option list \<Rightarrow> string \<Rightarrow> string outcome" where
  "write_points PrecisionString prec [] b = Return b"
| "write_points PrecisionString prec (p # ps) b =
     (case p of
        None \<Rightarrow> write_points PrecisionString prec ps b
      | Some dp \<Rightarrow>
          (case pt dp of
             None \<Rightarrow> Panic ''invalid memory address or nil pointer dereference''
           | Some point \<Rightarrow>
               write_points PrecisionString prec ps
                 (b @ PrecisionString point prec @ [CHR 0x0A])))"

text \<open>What the loop writes for one element of the batch: nothing for a nil point.\<close>

definition line_of :: "('p \<Rightarrow> string \<Rightarrow> string) \<Rightarrow> string \<Rightarrow> 'p DataPoint option \<Rightarrow> string" where
  "line_of PrecisionString prec p =
     (case p of
        Some (DataPoint (Some point)) \<Rightarrow> PrecisionString point prec @ [CHR 0x0A]
      | _ \<Rightarrow> [])"

text \<open>
  The request of \<^verbatim>\<open>Write\<close>; \<open>gz\<close> is the gzip compression of the written bytes.
\<close>

definition Write_request ::
  "(string \<Rightarrow> string) \<Rightarrow> ('p \<Rightarrow> string \<Rightarrow> string) \<Rightarrow> client \<Rightarrow> 'p batchpoints
     \<Rightarrow> http_request outcome" where
  "Write_request gz PrecisionString c bp =
     (case write_points PrecisionString (batchpoints_Precision bp) (points bp) [] of
        Panic msg \<Rightarrow> Panic msg
      | Return b \<Rightarrow>
          Return \<lparr>req_method = ''POST'',
                  req_endpoint = WriteDataURL,
                  req_params = [(''db'', batchpoints_Database bp),
                                (''precision'', batchpoints_Precision bp)],
                  req_headers =
                    (if encoding c \<noteq> DefaultEncoding
                     then [(''Content-Encoding'', encoding c)] else [])
                    @ [(''Content-Type'', []), (''User-Agent'', useragent c)],
                  req_basic_auth =
                    (if username c \<noteq> [] then Some (username c, password c) else None),
                  req_body = (if encoding c = GzipEncoding then gz b else b)\<rparr>)"

text \<open>
  \<^verbatim>\<open>Write\<close>: \<open>send\<close> builds and sends the request and gives the error of
  \<^verbatim>\<open>http.NewRequest\<close> or \<^verbatim>\<open>httpClient.Do\<close>, or the status code with the outcome of reading
  the body.
\<close>

definition client_Write ::
  "(string \<Rightarrow> string) \<Rightarrow> ('p \<Rightarrow> string \<Rightarrow> string) \<Rightarrow> client
     \<Rightarrow> (http_request \<Rightarrow> error + (int \<times> (error + string))) \<Rightarrow> 'p batchpoints
     \<Rightarrow> error option outcome" where
  "client_Write gz PrecisionString c send bp =
     (case Write_request gz PrecisionString c bp of
        Panic msg \<Rightarrow> Panic msg
      | Return req \<Rightarrow>
          Return (case send req of
                    Inl err \<Rightarrow> Some err
                  | Inr (status, read) \<Rightarrow>
                      (case read of
                         Inl err \<Rightarrow> Some err
                       | Inr body \<Rightarrow>
                           if status \<noteq> 204 \<and> status \<noteq> 200 then Some (ErrNew body)
                           else None)))"

section \<open>The subscription loop (tsdbclient.go)\<close>

text \<open>
  What \<^verbatim>\<open>Poll\<close> returns: nil, a subscribed message, an error, or a value of another type.
\<close>

datatype 'm event = EvNil | EvMessage 'm | EvError error | EvOther

text \<open>
  One turn of the loop as the environment decides it: the context is done (with the result
  of \<^verbatim>\<open>Unsubscribe\<close>), or it is not and \<^verbatim>\<open>Poll\<close> returns an event.
\<close>

datatype 'm turn = CtxDone "error option" | CtxLive "'m event"

text \<open>The destination channel: whether it is closed, its buffered messages, its capacity.\<close>

record 'm chan =
  chan_closed :: bool
  chan_buf :: "'m list"
  chan_cap :: nat

datatype consumer_call = CallSubscribe | CallPoll | CallUnsubscribe | CallClose

record 'm bridge =
  chMessage :: "'m chan"
  calls :: "consumer_call list"

text \<open>
  The \<^verbatim>\<open>for\<close> loop of \<^verbatim>\<open>subscribe\<close> over the turns that the environment supplies. \<open>None\<close>
  means that the loop is still running when the turns end. Closing a closed channel and
  sending on a closed channel panic; a send on a full channel falls to the default case.
\<close>

fun subscribe_loop ::
  "'m turn list \<Rightarrow> 'm bridge \<Rightarrow> ('m bridge \<times> error option outcome) option" where
  "subscribe_loop [] st = None"
| "subscribe_loop (CtxDone unsub # rest) st =
     (let st1 = st\<lparr>calls := calls st @ [CallUnsubscribe]\<rparr>
      in case unsub of
           Some e \<Rightarrow> Some (st1, Return (Some e))
         | None \<Rightarrow>
             if chan_closed (chMessage st1)
             then Some (st1, Panic ''close of closed channel'')
             else Some (st1\<lparr>chMessage := (chMessage st1)\<lparr>chan_closed := True\<rparr>\<rparr>,
                        Return None))"
| "subscribe_loop (CtxLive ev # rest) st =
     (let st1 = st\<lparr>calls := calls st @ [CallPoll]\<rparr>
      in case ev of
           EvNil \<Rightarrow> subscribe_loop rest st1
         | EvMessage m \<Rightarrow>
             if chan_closed (chMessage st1)
             then Some (st1, Panic ''send on closed channel'')
             else if length (chan_buf (chMessage st1)) < chan_cap (chMessage st1)
             then subscribe_loop rest
                    (st1\<lparr>chMessage :=
                       (chMessage st1)\<lparr>chan_buf := chan_buf (chMessage st1) @ [m]\<rparr>\<rparr>)
             else subscribe_loop rest st1
         | EvError e \<Rightarrow> Some (st1, Return (Some e))
         | EvOther \<Rightarrow> subscribe_loop rest st1)"

text \<open>
  \<^verbatim>\<open>subscribe\<close> as a whole: the checks of the arguments, the consumer (the results of
  \<^verbatim>\<open>newConsumer\<close> and \<^verbatim>\<open>Subscribe\<close>), the loop, and the deferred \<^verbatim>\<open>Unsubscribe\<close> and
  \<^verbatim>\<open>Close\<close> that run on every exit after their \<^verbatim>\<open>defer\<close>. A nil channel is \<open>None\<close>.
\<close>

definition subscribe ::
  "string \<Rightarrow> 'm chan option \<Rightarrow> error option \<Rightarrow> error option \<Rightarrow> 'm turn list
     \<Rightarrow> ('m chan option \<times> consumer_call list \<times> error option outcome) option" where
  "subscribe topic ch newConsumerErr subscribeErr turns =
     (if length topic = 0
      then Some (ch, [], Return (Some (ErrNew ''invalid args: topic is empty'')))
      else (case ch of
              None \<Rightarrow> Some (ch, [], Return (Some (ErrNew ''invalid args: chMessage is nil'')))
            | Some c \<Rightarrow>
                (case newConsumerErr of
                   Some err \<Rightarrow> Some (ch, [], Return (Some err))
                 | None \<Rightarrow>
                     (case subscribeErr of
                        Some err \<Rightarrow> Some (ch, [CallSubscribe, CallClose], Return (Some err))
                      | None \<Rightarrow>
                          (case subscribe_loop turns \<lparr>chMessage = c, calls = [CallSubscribe]\<rparr> of
                             None \<Rightarrow> None
                           | Some (st, out) \<Rightarrow>
                               Some (Some (chMessage st),
                                     calls st @ [CallUnsubscribe, CallClose], out))))))"

section \<open>Concrete clients for the examples\<close>

text \<open>
  A JSON reply with a given status code and decoded body, and a client whose HTTP client is
  \<open>client_Query\<close> over a fixed exchange, with the default options of the package.
\<close>

definition json_reply :: "int \<Rightarrow> 'f Response \<Rightarrow> 'f http_response" where
  "json_reply status r =
     \<lparr>StatusCode = status, MediaType = ''application/json'', Body = None, Decoded = Inr r\<rparr>"

definition client_with :: "(error + 'f http_response) \<Rightarrow> 'f tsdbClient" where
  "client_with sent =
     \<lparr>httpClient = Some (\<lambda>q. client_Query sent), initialErr = None,
      DBAddr = ''http://127.0.0.1:6041'', DBName = ''iot'', DBPrecision = ''ms'',
      DBUser = ''root'', DBPass = ''taosdata'', defaultNumberValue = GNil\<rparr>"

section \<open>Verification: escaping\<close>

lemma lookup_escaper:
  "lookup_pair escaper (c # cs) = (if c \<in> reserved then Some ([c], [backslash, c]) else None)"
  by (auto simp: escaper_def reserved_def dquote_def backslash_def)

lemma Replace_escaper_Cons:
  "Replace escaper (c # cs) =
     (if c \<in> reserved then [backslash, c] else [c]) @ Replace escaper cs"
  by (simp add: lookup_escaper)

lemma Replace_unescaper_Cons:
  "Replace unescaper (c # cs) =
     (if c = backslash \<and> cs \<noteq> [] \<and> hd cs \<in> reserved
      then hd cs # Replace unescaper (tl cs)
      else c # Replace unescaper cs)"
  by (cases cs) (auto simp: unescaper_def reserved_def dquote_def backslash_def)

declare Replace.simps(2) [simp del]

lemma String0_Nil: "String0 [] = []"
  by (simp add: String0_def)

lemma String0_Cons:
  "String0 (c # cs) = (if c \<in> reserved then [backslash, c] else [c]) @ String0 cs"
  by (simp add: String0_def Replace_escaper_Cons)

text \<open>An escaped string never starts with a bare reserved character.\<close>

lemma String0_hd: "String0 s = x # xs \<Longrightarrow> x \<notin> reserved"
  by (cases s)
     (auto simp: String0_Nil String0_Cons reserved_def backslash_def dquote_def
           split: if_splits)

lemma Replace_unescaper_String0: "Replace unescaper (String0 s) = s"
proof (induction s)
  case Nil
  show ?case by (simp add: String0_Nil)
next
  case (Cons c cs)
  show ?case
  proof (cases "c \<in> reserved")
    case True
    then show ?thesis using Cons.IH by (simp add: String0_Cons Replace_unescaper_Cons)
  next
    case False
    have "String0 cs = [] \<or> hd (String0 cs) \<notin> reserved"
      using String0_hd [of cs] by (cases "String0 cs") auto
    with False show ?thesis using Cons.IH
      by (auto simp: String0_Cons Replace_unescaper_Cons)
  qed
qed

lemma Replace_unescaper_id: "backslash \<notin> set s \<Longrightarrow> Replace unescaper s = s"
  by (induction s) (auto simp: Replace_unescaper_Cons)

text \<open>The shortcut of \<open>UnescapeString\<close> for inputs free of backslashes changes no result.\<close>

lemma UnescapeString_Replace: "UnescapeString s = Replace unescaper s"
  by (simp add: UnescapeString_def Replace_unescaper_id)

lemma UnescapeString_String0: "UnescapeString (String0 s) = s"
  by (simp add: UnescapeString_Replace Replace_unescaper_String0)

text \<open>
  C3. For every string made only of the reserved characters (comma, double quote, space,
  equals sign), unescaping the escaped string gives the string back:
  \<open>UnescapeString (String0 s) = s\<close>.
\<close>

theorem unescape_escape_reserved:
  "set s \<subseteq> reserved \<Longrightarrow> UnescapeString (String0 s) = s"
  by (rule UnescapeString_String0)

theorem unescape_escape_reserved_witness:
  "set ('', ='' @ [dquote]) \<subseteq> reserved
   \<and> String0 ('', ='' @ [dquote]) =
       [backslash, CHR '','', backslash, CHR '' '', backslash, CHR ''='', backslash, dquote]
   \<and> UnescapeString (String0 ('', ='' @ [dquote])) = '', ='' @ [dquote]"
  using unescape_escape_reserved [of "'', ='' @ [dquote]"]
  by (simp add: reserved_def String0_Cons String0_Nil)

section \<open>Verification: QueryData\<close>

lemma parseTimeStamp_example:
  "parseTimeStamp ''2024-01-01T00:00:00.000000000Z'' = Some 1704067200"
  by (simp add: parseTimeStamp_def longYear_def skip_byte_def getnum_def isDigit_def
      digit_val_def dec_value_def fracSecond_def commaOrPeriod_def daysIn_def isLeap_def
      daysBefore_def Date_Unix_def)

lemma Number_Int64_42: "Number_Int64 ''42'' = 42"
  by (simp add: Number_Int64_def ParseInt64_def isDigit_def dec_value_def digit_val_def)

lemma Response_Error_None: "Response_Error r = None \<longleftrightarrow> Code r = 0 \<and> Desc r = []"
  by (simp add: Response_Error_def)

text \<open>With a usable client and a response free of errors, QueryData is the loop over the rows.\<close>

lemma QueryData_rows:
  assumes "httpClient client = Some query" and "initialErr client = None"
    and "query (NewQuery sql (DBName client) (DBPrecision client)) = (Some r, None)"
    and "Response_Error r = None"
  shows "QueryData Float64 client sql cv =
           rows_loop Float64 (defaultNumberValue client) cv (ColumnMeta r) (Data r) []"
  using assms by (simp add: QueryData_def)

text \<open>
  C1. For a decoded response with column metadata [["n","BIGINT",8],["s","TIMESTAMP",8]]
  and the single row [42, "2024-01-01T00:00:00.000000000Z"], the integer cell being a
  \<^verbatim>\<open>json.Number\<close>, QueryData with coercion enabled returns exactly one row mapping, with
  \<open>n\<close> the 64-bit integer 42 and \<open>s\<close> the Unix seconds 1704067200.
\<close>

theorem QueryData_bigint_timestamp:
  assumes "httpClient client = Some query" and "initialErr client = None"
    and "query (NewQuery sql (DBName client) (DBPrecision client)) = (Some r, None)"
    and "Code r = 0" and "Desc r = []"
    and "ColumnMeta r = [[GString ''n'', GString ''BIGINT'', GNumber ''8''],
                         [GString ''s'', GString ''TIMESTAMP'', GNumber ''8'']]"
    and "Data r = [[GNumber ''42'', GString ''2024-01-01T00:00:00.000000000Z'']]"
  shows "QueryData Float64 client sql True =
           Return ([[''n'' \<mapsto> GInt64 42, ''s'' \<mapsto> GInt64 1704067200]], None)"
proof -
  have "Response_Error r = None"
    using assms(4,5) by (simp add: Response_Error_None)
  with assms(1-3) have "QueryData Float64 client sql True =
      rows_loop Float64 (defaultNumberValue client) True (ColumnMeta r) (Data r) []"
    by (rule QueryData_rows)
  then show ?thesis
    by (simp add: assms(6,7) column_step_def integer_types_def float_types_def
        parseTimeStamp_example Number_Int64_42)
qed

theorem QueryData_bigint_timestamp_witness:
  "QueryData (\<lambda>s. ())
     \<lparr>httpClient = Some (\<lambda>q. client_Query (Inr \<lparr>StatusCode = 200,
        MediaType = ''application/json'', Body = None,
        Decoded = Inr \<lparr>Code = 0, Desc = [],
          ColumnMeta = [[GString ''n'', GString ''BIGINT'', GNumber ''8''],
                        [GString ''s'', GString ''TIMESTAMP'', GNumber ''8'']],
          Data = [[GNumber ''42'', GString ''2024-01-01T00:00:00.000000000Z'']],
          Rows = 1\<rparr>\<rparr>)),
      initialErr = None, DBAddr = ''http://127.0.0.1:6041'', DBName = ''iot'',
      DBPrecision = ''ms'', DBUser = ''root'', DBPass = ''taosdata'',
      defaultNumberValue = GNil\<rparr> ''select n, s from t'' True =
   Return ([[''n'' \<mapsto> GInt64 42, ''s'' \<mapsto> GInt64 1704067200]], None)"
  by (rule QueryData_bigint_timestamp [where r = "\<lparr>Code = 0, Desc = [],
          ColumnMeta = [[GString ''n'', GString ''BIGINT'', GNumber ''8''],
                        [GString ''s'', GString ''TIMESTAMP'', GNumber ''8'']],
          Data = [[GNumber ''42'', GString ''2024-01-01T00:00:00.000000000Z'']],
          Rows = 1\<rparr>"])
     (simp_all add: client_Query_def checkResponse_def Response_Error_def)

lemma client_Query_error_free:
  "client_Query sent = (Some r, e) \<Longrightarrow> Response_Error r \<noteq> None \<Longrightarrow> e = None"
  by (auto simp: client_Query_def Let_def split: sum.splits option.splits if_splits)

text \<open>
  C2. \<open>Response_Error\<close> returns the sentinel \<open>ErrNotExistsTable\<close> exactly when the code is
  9826 or 9750, and QueryData returns an empty result with a nil error when the response of
  its query yields the sentinel (for any \<^verbatim>\<open>Client\<close> that returns the response with a nil
  error, and for \<open>client_Query\<close> over any exchange).
\<close>

theorem sentinel_table_not_exists:
  "(Response_Error r = Some ErrNotExistsTable \<longleftrightarrow> Code r = 9826 \<or> Code r = 9750)
   \<and> (httpClient client = Some query \<and> initialErr client = None
        \<and> query (NewQuery sql (DBName client) (DBPrecision client)) = (Some r', None)
        \<and> Response_Error r' = Some ErrNotExistsTable
      \<longrightarrow> QueryData Float64 client sql cv = Return ([], None))
   \<and> (httpClient client = Some query \<and> initialErr client = None
        \<and> query (NewQuery sql (DBName client) (DBPrecision client)) = client_Query sent
        \<and> fst (client_Query sent) = Some r''
        \<and> (Code r'' = 9826 \<or> Code r'' = 9750)
      \<longrightarrow> QueryData Float64 client sql cv = Return ([], None))"
proof (intro conjI impI)
  show "Response_Error r = Some ErrNotExistsTable \<longleftrightarrow> Code r = 9826 \<or> Code r = 9750"
    by (auto simp: Response_Error_def)
next
  assume "httpClient client = Some query \<and> initialErr client = None
        \<and> query (NewQuery sql (DBName client) (DBPrecision client)) = (Some r', None)
        \<and> Response_Error r' = Some ErrNotExistsTable"
  then show "QueryData Float64 client sql cv = Return ([], None)"
    by (simp add: QueryData_def)
next
  assume a: "httpClient client = Some query \<and> initialErr client = None
        \<and> query (NewQuery sql (DBName client) (DBPrecision client)) = client_Query sent
        \<and> fst (client_Query sent) = Some r''
        \<and> (Code r'' = 9826 \<or> Code r'' = 9750)"
  then have err: "Response_Error r'' = Some ErrNotExistsTable"
    by (auto simp: Response_Error_def)
  obtain e where q: "client_Query sent = (Some r'', e)"
    using a by (cases "client_Query sent") auto
  with err have "e = None"
    using client_Query_error_free [of sent r'' e] by simp
  with a q err show "QueryData Float64 client sql cv = Return ([], None)"
    by (simp add: QueryData_def)
qed

theorem sentinel_table_not_exists_witness:
  "Response_Error
     (\<lparr>Code = 9826, Desc = ''Table does not exist'', ColumnMeta = [], Data = [], Rows = 0\<rparr>
        :: unit Response) = Some ErrNotExistsTable
   \<and> QueryData (\<lambda>s. ())
       (client_with (Inr (json_reply 200
          \<lparr>Code = 9826, Desc = ''Table does not exist'', ColumnMeta = [], Data = [],
           Rows = 0\<rparr>)))
       ''select * from missing'' True = Return ([], None)
   \<and> QueryData (\<lambda>s. ())
       (client_with (Inr (json_reply 400
          \<lparr>Code = 9750, Desc = ''Database not exist'', ColumnMeta = [], Data = [],
           Rows = 0\<rparr>)))
       ''select * from missing'' False = Return ([], None)"
  using sentinel_table_not_exists [of
      "\<lparr>Code = 9826, Desc = ''Table does not exist'', ColumnMeta = [], Data = [], Rows = 0\<rparr>"
      "client_with (Inr (json_reply 200
          \<lparr>Code = 9826, Desc = ''Table does not exist'', ColumnMeta = [], Data = [],
           Rows = 0\<rparr>))"
      "\<lambda>q. client_Query (Inr (json_reply 200
          \<lparr>Code = 9826, Desc = ''Table does not exist'', ColumnMeta = [], Data = [],
           Rows = 0\<rparr>))"
      "''select * from missing''"
      "\<lparr>Code = 9826, Desc = ''Table does not exist'', ColumnMeta = [], Data = [], Rows = 0\<rparr>"
      "\<lambda>s. ()" True]
    sentinel_table_not_exists [of
      "\<lparr>Code = 9750, Desc = ''Database not exist'', ColumnMeta = [], Data = [], Rows = 0\<rparr>"
      "client_with (Inr (json_reply 400
          \<lparr>Code = 9750, Desc = ''Database not exist'', ColumnMeta = [], Data = [],
           Rows = 0\<rparr>))"
      "\<lambda>q. client_Query (Inr (json_reply 400
          \<lparr>Code = 9750, Desc = ''Database not exist'', ColumnMeta = [], Data = [],
           Rows = 0\<rparr>))"
      "''select * from missing''" _ "\<lambda>s. ()" False
      "Inr (json_reply 400
          \<lparr>Code = 9750, Desc = ''Database not exist'', ColumnMeta = [], Data = [],
           Rows = 0\<rparr>)"
      "\<lparr>Code = 9750, Desc = ''Database not exist'', ColumnMeta = [], Data = [], Rows = 0\<rparr>"]
  by (simp add: client_with_def json_reply_def client_Query_def checkResponse_def
      Response_Error_def)

section \<open>Verification: Query\<close>

lemma QueryData_client_with_ok:
  "Response_Error r = None \<Longrightarrow>
   QueryData Float64 (client_with (Inr (json_reply 200 r))) sql cv =
     rows_loop Float64 GNil cv (ColumnMeta r) (Data r) []"
  by (simp add: QueryData_def client_with_def json_reply_def client_Query_def checkResponse_def)

text \<open>
  C5 (as amended). An end-of-input decode error (message "EOF") on a response that passes
  \<open>checkResponse\<close> is returned as a decode error, with no response, when the status is 200;
  for any other status it is set aside, and Query returns the empty response together with
  the error "received status code N from server", not a nil error.
\<close>

theorem Query_EOF_decode:
  "checkResponse resp = None \<Longrightarrow> Decoded resp = Inl ''EOF'' \<Longrightarrow>
   client_Query (Inr resp) =
     (if StatusCode resp = 200 then (None, Some (ErrDecode 200 ''EOF''))
      else (Some zero_Response, Some (ErrStatus (StatusCode resp))))"
  by (simp add: client_Query_def Response_Error_def zero_Response_def)

theorem Query_EOF_decode_witness:
  "client_Query (Inr \<lparr>StatusCode = 200, MediaType = ''application/json'', Body = Some [],
      Decoded = Inl ''EOF''\<rparr>) = (None :: unit Response option, Some (ErrDecode 200 ''EOF''))
   \<and> client_Query (Inr \<lparr>StatusCode = 404, MediaType = ''application/json'', Body = Some [],
      Decoded = Inl ''EOF''\<rparr>) = (Some (zero_Response :: unit Response), Some (ErrStatus 404))"
  using Query_EOF_decode [of "\<lparr>StatusCode = 200, MediaType = ''application/json'',
      Body = Some [], Decoded = Inl ''EOF''\<rparr> :: unit http_response"]
    Query_EOF_decode [of "\<lparr>StatusCode = 404, MediaType = ''application/json'',
      Body = Some [], Decoded = Inl ''EOF''\<rparr> :: unit http_response"]
  by (simp add: checkResponse_def)

text \<open>
  C5 as stated fails: with status 404 and an empty JSON body, Query does not report success;
  it returns the empty response and a non-nil error.
\<close>

theorem Query_EOF_not_success:
  "client_Query (Inr \<lparr>StatusCode = 404, MediaType = ''application/json'', Body = Some [],
      Decoded = Inl ''EOF''\<rparr>) = (Some (zero_Response :: unit Response), Some (ErrStatus 404))
   \<and> snd (client_Query (Inr (\<lparr>StatusCode = 404, MediaType = ''application/json'',
      Body = Some [], Decoded = Inl ''EOF''\<rparr> :: unit http_response))) \<noteq> None"
  by (simp add: client_Query_def checkResponse_def Response_Error_def zero_Response_def)

lemma row_columns_malformed:
  "\<exists>c \<in> set cs. length c \<noteq> 3 \<Longrightarrow>
   row_columns Float64 dflt cv r i cs row = Fail (ErrNew ''column meta data length no equal 3'')
   \<or> (\<exists>msg. row_columns Float64 dflt cv r i cs row = Crash msg)"
proof (induction cs arbitrary: i row)
  case Nil
  then show ?case by simp
next
  case (Cons c cs)
  show ?case
  proof (cases "column_step Float64 dflt cv r i c row")
    case (Next row')
    then have "length c = 3" by (auto simp: column_step_def split: if_splits)
    with Cons.prems have "\<exists>c \<in> set cs. length c \<noteq> 3" by simp
    from Cons.IH [OF this] Next show ?thesis by simp
  next
    case (Fail err)
    then have "err = ErrNew ''column meta data length no equal 3''"
      by (auto simp: column_step_def split: if_splits gval.splits option.splits)
    with Fail show ?thesis by simp
  next
    case (Crash msg)
    then show ?thesis by simp
  qed
qed

lemma row_columns_append:
  "row_columns Float64 dflt cv r i pre row = Next row' \<Longrightarrow>
   row_columns Float64 dflt cv r i (pre @ cs) row =
     row_columns Float64 dflt cv r (i + length pre) cs row'"
  by (induction pre arbitrary: i row) (auto split: column_step.splits)

text \<open>
  C8 (as amended). When the response has at least one data row, a metadata entry whose length
  is not 3 stops the whole decode: QueryData returns no rows, either with the error
  "column meta data length no equal 3" or by a panic raised for an earlier column; it is the
  error whenever the columns before the entry go through in the first row. With no data
  rows the metadata is never inspected and the result is empty with a nil error.
\<close>

theorem malformed_meta_stops_decode:
  assumes "httpClient client = Some query" and "initialErr client = None"
    and "query (NewQuery sql (DBName client) (DBPrecision client)) = (Some r, None)"
    and "Response_Error r = None"
  shows "(Data r \<noteq> [] \<and> (\<exists>c \<in> set (ColumnMeta r). length c \<noteq> 3) \<longrightarrow>
            QueryData Float64 client sql cv =
              Return ([], Some (ErrNew ''column meta data length no equal 3''))
            \<or> (\<exists>msg. QueryData Float64 client sql cv = Panic msg))
       \<and> (Data r \<noteq> [] \<and> ColumnMeta r = pre @ c # post \<and> length c \<noteq> 3
            \<and> row_columns Float64 (defaultNumberValue client) cv (hd (Data r)) 0 pre Map.empty
                = Next row' \<longrightarrow>
            QueryData Float64 client sql cv =
              Return ([], Some (ErrNew ''column meta data length no equal 3'')))
       \<and> (Data r = [] \<longrightarrow> QueryData Float64 client sql cv = Return ([], None))"
proof -
  have q: "QueryData Float64 client sql cv =
      rows_loop Float64 (defaultNumberValue client) cv (ColumnMeta r) (Data r) []"
    using assms by (rule QueryData_rows)
  show ?thesis
  proof (intro conjI impI)
    assume a: "Data r \<noteq> [] \<and> (\<exists>c \<in> set (ColumnMeta r). length c \<noteq> 3)"
    then obtain d ds where d: "Data r = d # ds" by (cases "Data r") auto
    from a have "\<exists>c \<in> set (ColumnMeta r). length c \<noteq> 3" by simp
    from row_columns_malformed [OF this, of Float64 "defaultNumberValue client" cv d 0 Map.empty]
    show "QueryData Float64 client sql cv =
              Return ([], Some (ErrNew ''column meta data length no equal 3''))
            \<or> (\<exists>msg. QueryData Float64 client sql cv = Panic msg)"
      by (auto simp: q d)
  next
    assume a: "Data r \<noteq> [] \<and> ColumnMeta r = pre @ c # post \<and> length c \<noteq> 3
            \<and> row_columns Float64 (defaultNumberValue client) cv (hd (Data r)) 0 pre Map.empty
                = Next row'"
    then obtain d ds where d: "Data r = d # ds" by (cases "Data r") auto
    with a have pre: "row_columns Float64 (defaultNumberValue client) cv d 0 pre Map.empty
        = Next row'" by simp
    from a have "length c \<noteq> 3" by simp
    then show "QueryData Float64 client sql cv =
              Return ([], Some (ErrNew ''column meta data length no equal 3''))"
      using a by (simp add: q d row_columns_append [OF pre] column_step_def)
  next
    assume "Data r = []"
    then show "QueryData Float64 client sql cv = Return ([], None)"
      by (simp add: q)
  qed
qed

text \<open>
  C8 as stated fails: for a response with the one-element metadata entry ["a"] and no data
  rows, QueryData returns an empty result and a nil error.
\<close>

theorem malformed_meta_no_rows:
  "QueryData (\<lambda>s. ())
     (client_with (Inr (json_reply 200
        \<lparr>Code = 0, Desc = [], ColumnMeta = [[GString ''a'']], Data = [], Rows = 0\<rparr>)))
     ''select a from t'' True = Return ([], None)"
  by (simp add: QueryData_client_with_ok Response_Error_def)

theorem malformed_meta_stops_decode_witness:
  "QueryData (\<lambda>s. ())
     (client_with (Inr (json_reply 200
        \<lparr>Code = 0, Desc = [],
         ColumnMeta = [[GString ''a'', GString ''INT'', GNumber ''4''], [GString ''b'']],
         Data = [[GNumber ''1'', GNumber ''2'']], Rows = 1\<rparr>)))
     ''select a, b from t'' True
   = Return ([], Some (ErrNew ''column meta data length no equal 3''))"
  using malformed_meta_stops_decode [of
      "client_with (Inr (json_reply 200
        \<lparr>Code = 0, Desc = [],
         ColumnMeta = [[GString ''a'', GString ''INT'', GNumber ''4''], [GString ''b'']],
         Data = [[GNumber ''1'', GNumber ''2'']], Rows = 1\<rparr>))"
      "\<lambda>q. client_Query (Inr (json_reply 200
        \<lparr>Code = 0, Desc = [],
         ColumnMeta = [[GString ''a'', GString ''INT'', GNumber ''4''], [GString ''b'']],
         Data = [[GNumber ''1'', GNumber ''2'']], Rows = 1\<rparr>))"
      "''select a, b from t''"
      "\<lparr>Code = 0, Desc = [],
         ColumnMeta = [[GString ''a'', GString ''INT'', GNumber ''4''], [GString ''b'']],
         Data = [[GNumber ''1'', GNumber ''2'']], Rows = 1\<rparr>"
      "\<lambda>s. ()" True "[[GString ''a'', GString ''INT'', GNumber ''4'']]" "[GString ''b'']" "[]"
      "[''a'' \<mapsto> GInt64 1]"]
  by (simp add: client_with_def json_reply_def client_Query_def checkResponse_def
      Response_Error_def column_step_def integer_types_def Number_Int64_def ParseInt64_def
      isDigit_def dec_value_def digit_val_def)

text \<open>
  C10. QueryData with coercion enabled panics on an unchecked type assertion, instead of
  returning an error, for a response with a metadata triple whose name is not a string, for
  one whose type is not a string, and for one with a TIMESTAMP cell that is not a string.
\<close>

theorem QueryData_unchecked_assertions:
  "QueryData (\<lambda>s. ())
     (client_with (Inr (json_reply 200
        \<lparr>Code = 0, Desc = [], ColumnMeta = [[GNumber ''1'', GString ''INT'', GNumber ''4'']],
         Data = [[GNumber ''7'']], Rows = 1\<rparr>)))
     ''select 1'' True = Panic ''interface conversion: interface {} is not string''
   \<and> QueryData (\<lambda>s. ())
     (client_with (Inr (json_reply 200
        \<lparr>Code = 0, Desc = [], ColumnMeta = [[GString ''n'', GNumber ''4'', GNumber ''4'']],
         Data = [[GNumber ''7'']], Rows = 1\<rparr>)))
     ''select n from t'' True = Panic ''interface conversion: interface {} is not string''
   \<and> QueryData (\<lambda>s. ())
     (client_with (Inr (json_reply 200
        \<lparr>Code = 0, Desc = [], ColumnMeta = [[GString ''ts'', GString ''TIMESTAMP'', GNumber ''8'']],
         Data = [[GNumber ''1704067200000'']], Rows = 1\<rparr>)))
     ''select ts from t'' True = Panic ''interface conversion: interface {} is not string''"
  by (simp add: QueryData_client_with_ok Response_Error_def column_step_def
      integer_types_def float_types_def)


section \<open>Verification: precision of a batch\<close>

lemma takeWhile_all: "list_all P xs \<Longrightarrow> takeWhile P xs = xs \<and> dropWhile P xs = []"
  by (induction xs) auto

lemma unitMap_bound: "map_of unitMap u = Some unit \<Longrightarrow> 0 < unit \<and> unit \<le> 3600000000000"
  by (auto simp: unitMap_def split: if_splits)

lemma isDigit_1: "isDigit (CHR ''1'')" "digit_val (CHR ''1'') = 1"
  by (simp_all add: isDigit_def digit_val_def)

lemma leadingInt_one:
  "list_all unit_byte u \<Longrightarrow> leadingInt 0 (CHR ''1'' # u) = Some (1, u)"
  by (cases u) (auto simp: isDigit_1 unit_byte_def)

lemma duration_term_one:
  assumes "list_all unit_byte u"
  shows "duration_term frac orig (CHR ''1'' # u) =
           (if u = [] then Inl (ErrMissingUnit orig)
            else case map_of unitMap u of
                   None \<Rightarrow> Inl (ErrUnknownUnit u orig)
                 | Some unit \<Rightarrow> Inr (unit, []))"
proof -
  have li: "leadingInt 0 (CHR ''1'' # u) = Some (1, u)"
    using assms by (rule leadingInt_one)
  have tw: "takeWhile unit_byte u = u" "dropWhile unit_byte u = []"
    using takeWhile_all [OF assms] by simp_all
  have nodot: "u \<noteq> [] \<Longrightarrow> hd u \<noteq> CHR ''.''"
    using assms by (cases u) (auto simp: unit_byte_def)
  have fr: "(case u of [] \<Rightarrow> (0, 0, u)
      | c1 # t1 \<Rightarrow> if c1 = CHR ''.'' then leadingFraction 0 0 False t1 else (0, 0, u))
      = (0, 0, u)"
    using nodot by (cases u) auto
  have small: "\<And>unit. map_of unitMap u = Some unit \<Longrightarrow> (9223372036854775808::nat) div unit \<noteq> 0"
  proof -
    fix unit assume "map_of unitMap u = Some unit"
    then have "unit \<in> {1, 1000, 1000000, 1000000000, 60000000000, 3600000000000}"
      by (auto simp: unitMap_def split: if_splits)
    then show "(9223372036854775808::nat) div unit \<noteq> 0" by auto
  qed
  show ?thesis
    unfolding duration_term_def
    using small
    by (auto simp: li fr tw isDigit_1 Let_def simp del: leadingInt.simps split: option.splits)
qed

lemma ParseDuration_one:
  assumes "list_all unit_byte u"
  shows "ParseDuration frac (CHR ''1'' # u) =
           (if u = [] then Inl (ErrMissingUnit (CHR ''1'' # u))
            else case map_of unitMap u of
                   None \<Rightarrow> Inl (ErrUnknownUnit u (CHR ''1'' # u))
                 | Some unit \<Rightarrow> Inr (int unit))"
proof -
  have "ParseDuration_loop frac (CHR ''1'' # u) 0 (CHR ''1'' # u) =
          (if u = [] then Inl (ErrMissingUnit (CHR ''1'' # u))
            else case map_of unitMap u of
                   None \<Rightarrow> Inl (ErrUnknownUnit u (CHR ''1'' # u))
                 | Some unit \<Rightarrow> Inr unit)"
    using unitMap_bound [of u]
    by (subst ParseDuration_loop.simps)
       (auto simp: duration_term_one [OF assms] Let_def split: option.splits)
  moreover have "CHR ''1'' # u \<noteq> ''0''" by simp
  ultimately show ?thesis
    using unitMap_bound [of u]
    by (auto simp: ParseDuration_def Let_def split: option.splits)
qed


lemma unit_names: "(u \<in> set (map fst unitMap)) = (map_of unitMap u \<noteq> None)"
  by (simp add: map_of_eq_None_iff)

lemma empty_not_unit: "map_of unitMap [] = None"
  by (simp add: unitMap_def)

lemma common_units:
  assumes "u \<in> set [''ns'', ''us'', ''ms'', ''s'']"
  shows "list_all unit_byte u \<and> u \<noteq> [] \<and> (\<exists>unit. map_of unitMap u = Some unit)"
  using assms by (auto simp: unit_byte_def isDigit_def unitMap_def)

lemma SetPrecision_unit_string:
  assumes "list_all unit_byte u"
  shows "SetPrecision frac bp u =
           (if u = [] then (bp, Some (ErrMissingUnit (''1'' @ u)))
            else case map_of unitMap u of
                   None \<Rightarrow> (bp, Some (ErrUnknownUnit u (''1'' @ u)))
                 | Some unit \<Rightarrow> (bp\<lparr>precision := u\<rparr>, None))"
  by (simp add: SetPrecision_def ParseDuration_one [OF assms] split: option.splits)

lemma NewBatchPoints_unit_string:
  assumes "list_all unit_byte u" and "u \<noteq> []"
  shows "NewBatchPoints frac \<lparr>conf_Precision = u, conf_Database = db\<rparr> =
           (case map_of unitMap u of
              None \<Rightarrow> Inl (ErrUnknownUnit u (''1'' @ u))
            | Some unit \<Rightarrow>
                Inr \<lparr>points = [], database = db, precision = u, retentionPolicy = [],
                     writeConsistency = []\<rparr>)"
  using assms(2)
  by (simp add: NewBatchPoints_def ParseDuration_one [OF assms(1)] split: option.splits)



text \<open>
  C7 (as amended). NewBatchPoints and SetPrecision accept each of ns, us, ms and s, and an
  empty precision at construction becomes ms. Among the strings free of digits and periods,
  the accepted ones are exactly the eight unit names of \<^verbatim>\<open>time.ParseDuration\<close> (ns, us,
  the two spellings of microseconds with a micro sign, ms, s, m, h); every other such string
  fails with an error.
\<close>

theorem precision_accepted_units:
  "(u \<in> set [''ns'', ''us'', ''ms'', ''s''] \<longrightarrow>
      SetPrecision frac bp u = (bp\<lparr>precision := u\<rparr>, None)
      \<and> NewBatchPoints frac \<lparr>conf_Precision = u, conf_Database = db\<rparr> =
          Inr \<lparr>points = [], database = db, precision = u, retentionPolicy = [],
               writeConsistency = []\<rparr>)
   \<and> NewBatchPoints frac \<lparr>conf_Precision = [], conf_Database = db\<rparr> =
        Inr \<lparr>points = [], database = db, precision = ''ms'', retentionPolicy = [],
             writeConsistency = []\<rparr>
   \<and> (list_all unit_byte u \<longrightarrow>
        (snd (SetPrecision frac bp u) = None \<longleftrightarrow> u \<in> set (map fst unitMap)))
   \<and> (list_all unit_byte u \<and> u \<noteq> [] \<longrightarrow>
        ((\<exists>b. NewBatchPoints frac \<lparr>conf_Precision = u, conf_Database = db\<rparr> = Inr b)
           \<longleftrightarrow> u \<in> set (map fst unitMap)))"
proof (intro conjI impI)
  assume u: "u \<in> set [''ns'', ''us'', ''ms'', ''s'']"
  from common_units [OF u] show "SetPrecision frac bp u = (bp\<lparr>precision := u\<rparr>, None)"
    by (auto simp: SetPrecision_unit_string)
  from common_units [OF u]
  show "NewBatchPoints frac \<lparr>conf_Precision = u, conf_Database = db\<rparr> =
          Inr \<lparr>points = [], database = db, precision = u, retentionPolicy = [],
               writeConsistency = []\<rparr>"
    by (auto simp: NewBatchPoints_unit_string)
next
  have "list_all unit_byte ''ms''" by (simp add: unit_byte_def isDigit_def)
  then show "NewBatchPoints frac \<lparr>conf_Precision = [], conf_Database = db\<rparr> =
        Inr \<lparr>points = [], database = db, precision = ''ms'', retentionPolicy = [],
             writeConsistency = []\<rparr>"
    by (simp add: NewBatchPoints_def ParseDuration_one unitMap_def)
next
  assume "list_all unit_byte u"
  then show "snd (SetPrecision frac bp u) = None \<longleftrightarrow> u \<in> set (map fst unitMap)"
    using empty_not_unit
    by (auto simp: SetPrecision_unit_string unit_names simp del: set_map split: option.splits)
next
  assume "list_all unit_byte u \<and> u \<noteq> []"
  then show "(\<exists>b. NewBatchPoints frac \<lparr>conf_Precision = u, conf_Database = db\<rparr> = Inr b)
      \<longleftrightarrow> u \<in> set (map fst unitMap)"
    by (auto simp: NewBatchPoints_unit_string unit_names simp del: set_map split: option.splits)
qed

theorem precision_accepted_units_witness:
  "SetPrecision (\<lambda>f u k. 0)
     (\<lparr>points = [], database = ''iot'', precision = ''ms'', retentionPolicy = [],
       writeConsistency = []\<rparr> :: unit batchpoints) ''ns''
     = (\<lparr>points = [], database = ''iot'', precision = ''ns'', retentionPolicy = [],
         writeConsistency = []\<rparr>, None)
   \<and> NewBatchPoints (\<lambda>f u k. 0) \<lparr>conf_Precision = ''ns'', conf_Database = ''iot''\<rparr>
     = Inr (\<lparr>points = [], database = ''iot'', precision = ''ns'', retentionPolicy = [],
         writeConsistency = []\<rparr> :: unit batchpoints)
   \<and> snd (SetPrecision (\<lambda>f u k. 0)
     (\<lparr>points = [], database = ''iot'', precision = ''ms'', retentionPolicy = [],
       writeConsistency = []\<rparr> :: unit batchpoints) ''sec'') \<noteq> None"
  using precision_accepted_units [of "''ns''" "\<lambda>f u k. 0"
      "\<lparr>points = [], database = ''iot'', precision = ''ms'', retentionPolicy = [],
        writeConsistency = []\<rparr> :: unit batchpoints" "''iot''"]
    precision_accepted_units [of "''sec''" "\<lambda>f u k. 0"
      "\<lparr>points = [], database = ''iot'', precision = ''ms'', retentionPolicy = [],
        writeConsistency = []\<rparr> :: unit batchpoints" "''iot''"]
  by (auto simp: unit_byte_def isDigit_def unitMap_def)

text \<open>
  C7 as stated fails: the unit h, outside ns, us, ms, s, is accepted by both functions.
\<close>

theorem precision_hour_accepted:
  "SetPrecision (\<lambda>f u k. 0)
     (\<lparr>points = [], database = ''iot'', precision = ''ms'', retentionPolicy = [],
       writeConsistency = []\<rparr> :: unit batchpoints) ''h''
     = (\<lparr>points = [], database = ''iot'', precision = ''h'', retentionPolicy = [],
         writeConsistency = []\<rparr>, None)
   \<and> NewBatchPoints (\<lambda>f u k. 0) \<lparr>conf_Precision = ''h'', conf_Database = ''iot''\<rparr>
     = Inr (\<lparr>points = [], database = ''iot'', precision = ''h'', retentionPolicy = [],
         writeConsistency = []\<rparr> :: unit batchpoints)"
  by (simp add: SetPrecision_unit_string NewBatchPoints_unit_string unit_byte_def isDigit_def
      unitMap_def)

section \<open>Verification: Write and the subscription loop\<close>

lemma line_of_simps:
  "line_of PrecisionString prec None = []"
  "line_of PrecisionString prec (Some (DataPoint (Some point))) =
     PrecisionString point prec @ [CHR 0x0A]"
  by (simp_all add: line_of_def)

lemma write_points_lines:
  "Some (DataPoint None) \<notin> set ps \<Longrightarrow>
   write_points PrecisionString prec ps b =
     Return (b @ concat (map (line_of PrecisionString prec) ps))"
proof (induction ps arbitrary: b)
  case Nil
  show ?case by simp
next
  case (Cons p ps)
  then have IH: "\<And>b. write_points PrecisionString prec ps b =
      Return (b @ concat (map (line_of PrecisionString prec) ps))" by simp
  show ?case
  proof (cases p)
    case None
    then show ?thesis by (simp add: IH line_of_simps)
  next
    case (Some dp)
    with Cons.prems obtain point where "dp = DataPoint (Some point)"
      by (cases dp) (auto, metis not_None_eq)
    with Some show ?thesis by (simp add: IH line_of_simps)
  qed
qed

text \<open>
  C4. For a batch of one nil point and one valid point, in either order, Write puts exactly
  one line into the request body: the serialization of the valid point at the precision of
  the batch, followed by a newline (compressed as a whole under the gzip encoding). In
  general the nil points are skipped, writing nothing, and the other points are written in
  the order of insertion, each followed by a newline.
\<close>

theorem Write_skips_nil_points:
  "write_points PrecisionString prec [None, Some (DataPoint (Some p))] [] =
     Return (PrecisionString p prec @ [CHR 0x0A])
   \<and> write_points PrecisionString prec [Some (DataPoint (Some p)), None] [] =
     Return (PrecisionString p prec @ [CHR 0x0A])
   \<and> Write_request gz PrecisionString c (bp\<lparr>points := [None, Some (DataPoint (Some p))]\<rparr>) =
     Return \<lparr>req_method = ''POST'', req_endpoint = WriteDataURL,
             req_params = [(''db'', database bp), (''precision'', precision bp)],
             req_headers =
               (if encoding c \<noteq> DefaultEncoding
                then [(''Content-Encoding'', encoding c)] else [])
               @ [(''Content-Type'', []), (''User-Agent'', useragent c)],
             req_basic_auth =
               (if username c \<noteq> [] then Some (username c, password c) else None),
             req_body =
               (if encoding c = GzipEncoding then gz (PrecisionString p (precision bp) @ [CHR 0x0A])
                else PrecisionString p (precision bp) @ [CHR 0x0A])\<rparr>
   \<and> (Some (DataPoint None) \<notin> set ps \<longrightarrow>
        write_points PrecisionString prec ps [] =
          Return (concat (map (line_of PrecisionString prec) ps)))"
  by (simp add: Write_request_def batchpoints_Precision_def batchpoints_Database_def
      write_points_lines)

theorem Write_skips_nil_points_witness:
  "write_points (\<lambda>p prec. p @ '' '' @ prec) ''ms''
     [None, Some (DataPoint (Some ''cpu v=1'')), None, Some (DataPoint (Some ''mem v=2''))] []
   = Return (''cpu v=1 ms'' @ [CHR 0x0A] @ ''mem v=2 ms'' @ [CHR 0x0A])"
  using Write_skips_nil_points [of "\<lambda>p prec. p @ '' '' @ prec" "''ms''" "''cpu v=1''" id
      "\<lparr>username = [], password = [], useragent = [], encoding = []\<rparr>"
      "\<lparr>points = [], database = [], precision = [], retentionPolicy = [],
        writeConsistency = []\<rparr>"
      "[None, Some (DataPoint (Some ''cpu v=1'')), None, Some (DataPoint (Some ''mem v=2''))]"]
  by (simp add: line_of_simps)

text \<open>
  C9. In a turn of the loop that finds the context cancelled, Unsubscribe is called on the
  consumer. If it succeeds, the destination channel (open until then) is closed and the loop
  returns nil; if it fails, the channel is left as it was and the error of Unsubscribe is
  returned.
\<close>

theorem subscribe_cancel:
  "(\<not> chan_closed (chMessage st) \<longrightarrow>
      subscribe_loop (CtxDone None # rest) st =
        Some (st\<lparr>calls := calls st @ [CallUnsubscribe],
                 chMessage := (chMessage st)\<lparr>chan_closed := True\<rparr>\<rparr>, Return None))
   \<and> subscribe_loop (CtxDone (Some e) # rest) st =
        Some (st\<lparr>calls := calls st @ [CallUnsubscribe]\<rparr>, Return (Some e))
   \<and> chMessage (fst (the (subscribe_loop (CtxDone (Some e) # rest) st))) = chMessage st"
  by (simp add: Let_def)

theorem subscribe_cancel_witness:
  "subscribe_loop [CtxLive (EvMessage (1::nat)), CtxDone None, CtxLive EvNil]
     \<lparr>chMessage = \<lparr>chan_closed = False, chan_buf = [], chan_cap = 4\<rparr>, calls = [CallSubscribe]\<rparr>
   = Some (\<lparr>chMessage = \<lparr>chan_closed = True, chan_buf = [1], chan_cap = 4\<rparr>,
            calls = [CallSubscribe, CallPoll, CallUnsubscribe]\<rparr>, Return None)
   \<and> subscribe_loop [CtxLive (EvMessage (1::nat)), CtxDone (Some (ErrNew ''closed'')), CtxLive EvNil]
     \<lparr>chMessage = \<lparr>chan_closed = False, chan_buf = [], chan_cap = 4\<rparr>, calls = [CallSubscribe]\<rparr>
   = Some (\<lparr>chMessage = \<lparr>chan_closed = False, chan_buf = [1], chan_cap = 4\<rparr>,
            calls = [CallSubscribe, CallPoll, CallUnsubscribe]\<rparr>, Return (Some (ErrNew ''closed'')))"
  using subscribe_cancel [of
      "\<lparr>chMessage = \<lparr>chan_closed = False, chan_buf = [1::nat], chan_cap = 4\<rparr>,
        calls = [CallSubscribe, CallPoll]\<rparr>" "[CtxLive EvNil]" "ErrNew ''closed''"]
  by (simp add: Let_def)

end
